theory Spec2Isabelle
  imports Main
begin

section \<open>JavaScript primitive values\<close>

text \<open>
  The values that travel through \<^verbatim>\<open>js/textbatch.js\<close>: node identifiers, the fields of
  a feedback payload, widget values. Numbers are the integer-valued ones (exact in the
  range where a double is exact) together with \<open>NaN\<close>; fractions and infinities are
  outside the model. Strings are byte strings (UTF-8), so a comparison of two strings
  is a comparison of their bytes.
\<close>

datatype jsval = JUndefined | JNull | JBool bool | JNum int | JNaN | JStr string

text \<open>\<^verbatim>\<open>!v\<close> is \<open>\<not> truthy v\<close>.\<close>

definition truthy :: "jsval \<Rightarrow> bool" where
  "truthy v =
     (case v of
        JUndefined \<Rightarrow> False
      | JNull \<Rightarrow> False
      | JBool b \<Rightarrow> b
      | JNum n \<Rightarrow> n \<noteq> 0
      | JNaN \<Rightarrow> False
      | JStr s \<Rightarrow> s \<noteq> [])"

text \<open>\<^verbatim>\<open>a === b\<close> on primitives: same type and same value, and \<open>NaN\<close> equals nothing.\<close>

definition strict_eq :: "jsval \<Rightarrow> jsval \<Rightarrow> bool" where
  "strict_eq a b = (a = b \<and> a \<noteq> JNaN)"

definition is_nullish :: "jsval \<Rightarrow> bool" where
  "is_nullish v = (v = JUndefined \<or> v = JNull)"

subsection \<open>Digits and white space\<close>

definition is_space :: "char \<Rightarrow> bool" where
  "is_space c = (c \<in> set [CHR 0x09, CHR 0x0A, CHR 0x0B, CHR 0x0C, CHR 0x0D, CHR '' ''])"

definition digit_of :: "char \<Rightarrow> nat option" where
  "digit_of c =
     (let n = (of_char c :: nat) in
      if 48 \<le> n \<and> n \<le> 57 then Some (n - 48)
      else if 97 \<le> n \<and> n \<le> 122 then Some (n - 87)
      else if 65 \<le> n \<and> n \<le> 90 then Some (n - 55)
      else None)"

definition is_digit :: "nat \<Rightarrow> char \<Rightarrow> bool" where
  "is_digit R c = (case digit_of c of Some d \<Rightarrow> d < R | None \<Rightarrow> False)"

definition digits_val :: "nat \<Rightarrow> string \<Rightarrow> nat" where
  "digits_val R Z =
     foldl (\<lambda>acc c. case digit_of c of Some d \<Rightarrow> acc * R + d | None \<Rightarrow> acc) 0 Z"

fun digits10 :: "nat \<Rightarrow> string" where
  "digits10 n =
     (if n < 10 then [char_of (48 + n)]
      else digits10 (n div 10) @ [char_of (48 + n mod 10)])"

subsection \<open>Conversions\<close>

text \<open>\<^verbatim>\<open>String(v)\<close>, as used for a property key and by \<^verbatim>\<open>parseInt\<close>.\<close>

definition ToString :: "jsval \<Rightarrow> string" where
  "ToString v =
     (case v of
        JUndefined \<Rightarrow> ''undefined''
      | JNull \<Rightarrow> ''null''
      | JBool b \<Rightarrow> (if b then ''true'' else ''false'')
      | JNum n \<Rightarrow> (if n < 0 then CHR ''-'' # digits10 (nat (- n)) else digits10 (nat n))
      | JNaN \<Rightarrow> ''NaN''
      | JStr s \<Rightarrow> s)"

text \<open>
  \<^verbatim>\<open>parseInt(v)\<close> with no radix: the argument is converted to a string, leading white
  space is skipped, one sign is read, a \<^verbatim>\<open>0x\<close> prefix selects radix 16, and the longest
  prefix of digits is the result; no digit at all gives \<open>NaN\<close>.
\<close>

definition parseInt_string :: "string \<Rightarrow> jsval" where
  "parseInt_string s =
     (let S = dropWhile is_space s;
          neg = (case S of c # _ \<Rightarrow> c = CHR ''-'' | [] \<Rightarrow> False);
          S1 = (case S of c # cs \<Rightarrow> (if c = CHR ''+'' \<or> c = CHR ''-'' then cs else S) | [] \<Rightarrow> S);
          hex = (case S1 of c0 # c1 # _ \<Rightarrow> c0 = CHR ''0'' \<and> (c1 = CHR ''x'' \<or> c1 = CHR ''X'')
                 | _ \<Rightarrow> False);
          R = (if hex then 16 else 10);
          S2 = (if hex then drop 2 S1 else S1);
          Z = takeWhile (is_digit R) S2
      in if Z = [] then JNaN
         else JNum ((if neg then - 1 else 1) * int (digits_val R Z)))"

definition parseInt :: "jsval \<Rightarrow> jsval" where
  "parseInt v = parseInt_string (ToString v)"

text \<open>
  \<^verbatim>\<open>Number(s)\<close> for a string, \<open>None\<close> standing for \<open>NaN\<close>: white space is trimmed at both
  ends, the empty string is 0, and the whole rest must be one literal. The literals of
  the integer model are the signed decimal integers and the unsigned \<^verbatim>\<open>0x\<close>, \<^verbatim>\<open>0o\<close>,
  \<^verbatim>\<open>0b\<close> integers; a string that spells a number with a fraction or an exponent, or
  \<^verbatim>\<open>Infinity\<close>, has no value in the model and is read as \<open>NaN\<close>.
\<close>

definition radix_literal :: "string \<Rightarrow> (nat \<times> string) option" where
  "radix_literal t =
     (case t of
        c0 # c1 # ds \<Rightarrow>
          (if c0 \<noteq> CHR ''0'' then None
           else if c1 = CHR ''x'' \<or> c1 = CHR ''X'' then Some (16, ds)
           else if c1 = CHR ''o'' \<or> c1 = CHR ''O'' then Some (8, ds)
           else if c1 = CHR ''b'' \<or> c1 = CHR ''B'' then Some (2, ds)
           else None)
      | _ \<Rightarrow> None)"

definition StringToNumber :: "string \<Rightarrow> int option" where
  "StringToNumber s =
     (let t = rev (dropWhile is_space (rev (dropWhile is_space s))) in
      if t = [] then Some 0
      else case radix_literal t of
        Some (R, ds) \<Rightarrow>
          (if ds \<noteq> [] \<and> list_all (is_digit R) ds then Some (int (digits_val R ds)) else None)
      | None \<Rightarrow>
          (let neg = (case t of c # _ \<Rightarrow> c = CHR ''-'' | [] \<Rightarrow> False);
               ds = (case t of c # cs \<Rightarrow> (if c = CHR ''+'' \<or> c = CHR ''-'' then cs else t)
                     | [] \<Rightarrow> t)
           in if ds \<noteq> [] \<and> list_all (is_digit 10) ds
              then Some ((if neg then - 1 else 1) * int (digits_val 10 ds))
              else None))"

definition ToNumber :: "jsval \<Rightarrow> int option" where
  "ToNumber v =
     (case v of
        JUndefined \<Rightarrow> None
      | JNull \<Rightarrow> Some 0
      | JBool b \<Rightarrow> Some (if b then 1 else 0)
      | JNum n \<Rightarrow> Some n
      | JNaN \<Rightarrow> None
      | JStr s \<Rightarrow> StringToNumber s)"

text \<open>
  \<^verbatim>\<open>a == b\<close> on primitives: \<^verbatim>\<open>null\<close> and \<^verbatim>\<open>undefined\<close> equal each other and nothing
  else, two strings are compared as strings, and every other pair is compared as
  numbers (\<open>NaN\<close> equals nothing).
\<close>

definition loose_eq :: "jsval \<Rightarrow> jsval \<Rightarrow> bool" where
  "loose_eq a b =
     (if is_nullish a \<or> is_nullish b then is_nullish a \<and> is_nullish b
      else case (a, b) of
        (JStr s, JStr t) \<Rightarrow> s = t
      | _ \<Rightarrow> (case (ToNumber a, ToNumber b) of (Some m, Some n) \<Rightarrow> m = n | _ \<Rightarrow> False))"

section \<open>The host application\<close>

text \<open>
  The extension runs inside a node editor that owns the graph, the nodes and their
  widgets. Node objects are shared between the graph, the identifier cache and the
  closures of widget callbacks, so they live in a store and are named by references.
  A function of the host is known here only by what a call to it does: it returns or
  it throws. Every call to one is recorded in \<open>calls\<close>.
\<close>

type_synonym ref = nat

datatype variant = V1 | V2

datatype exn = TypeError | ReferenceError | HostError

datatype outcome = Returns | Throws

datatype promise = Resolves jsval jsval | Rejects

text \<open>
  The callbacks a widget can carry: one owned by the host, or one of the closures that
  \<^verbatim>\<open>js/textbatch.js\<close> creates (each closes over \<^verbatim>\<open>this\<close>, the node).
\<close>

datatype callback =
    HostCallback outcome
  | StatusCallback ref
  | ResetCallback ref
  | ToStartCallback ref
  | ToEndCallback ref nat

record widget =
  wtype :: string
  name :: string
  wvalue :: jsval
  callback :: "callback option"

text \<open>
  A node: \<open>ident\<close> is \<^verbatim>\<open>this.id\<close>; \<open>widgets\<close> is \<open>None\<close> while the node has no
  \<^verbatim>\<open>widgets\<close> array; \<open>outputs\<close> holds the \<^verbatim>\<open>value\<close> property of each output slot
  (\<open>JUndefined\<close> for a slot without one); \<open>properties\<close> tells whether
  \<^verbatim>\<open>this.properties\<close> is set and \<open>has_addWidget\<close> whether the node has the host's
  \<^verbatim>\<open>addWidget\<close> method.
\<close>

record node =
  ident :: jsval
  widgets :: "widget list option"
  outputs :: "jsval list option"
  status :: jsval
  properties :: bool
  has_addWidget :: bool

text \<open>
  \<^verbatim>\<open>app.graph\<close>: the table \<^verbatim>\<open>_nodes_by_id\<close> (an object, so its keys are strings), the
  method \<^verbatim>\<open>getNodeById\<close>, the array \<^verbatim>\<open>nodes\<close> and the method \<^verbatim>\<open>serialize\<close>; each
  is \<open>None\<close> when the host does not provide it. The table holds nodes only: the
  members that every object inherits (\<^verbatim>\<open>constructor\<close>, \<^verbatim>\<open>toString\<close>, ...) are not
  modelled, and neither are \<^verbatim>\<open>null\<close> entries of \<^verbatim>\<open>nodes\<close>.
\<close>

record graph =
  nodes_by_id :: "(string \<Rightarrow> ref option) option"
  getNodeById :: "(jsval \<Rightarrow> ref option) option"
  nodes :: "ref list option"
  serialize :: "outcome option"

record app =
  graph :: "graph option"
  isProcessing :: bool
  queuePrompt :: "outcome option"
  graphToPrompt :: "promise option"

datatype level = Log | Warn | Error

datatype task =
    QueuePromptTask
  | DeferredInit ref string
  | ResetThen jsval jsval

datatype call =
    CallWidgetCallback ref nat jsval
  | CallQueuePrompt jsval jsval
  | CallSerialize
  | CallGraphToPrompt
  | CallPrevOnNodeCreated ref "jsval list"
  | CallPrevOnRemoved ref "jsval list"

text \<open>
  The state of the page: the module's \<^verbatim>\<open>nodeIdMap\<close> (a \<^verbatim>\<open>Map\<close>, kept in insertion
  order), the store of node objects, the host's \<^verbatim>\<open>app\<close>, the console, the pending
  timers with the time each is due, the pending promise reactions, the clock, and the
  record of the calls made to the host.
\<close>

record state =
  nodeIdMap :: "(jsval \<times> ref) list"
  heap :: "ref \<Rightarrow> node"
  app :: app
  console :: "(level \<times> string) list"
  timers :: "(nat \<times> task) list"
  microtasks :: "task list"
  now :: nat
  calls :: "call list"

record feedback_data =
  node_id :: jsval
  widget_name :: jsval
  type :: jsval
  dvalue :: jsval

text \<open>
  A result is the exception that escapes, if any, and the state reached (the effects
  made before a throw stay).
\<close>

type_synonym result = "exn option \<times> state"

subsection \<open>Console, timers, the identifier cache\<close>

definition log :: "level \<Rightarrow> string \<Rightarrow> state \<Rightarrow> state" where
  "log l msg st = st\<lparr>console := console st @ [(l, msg)]\<rparr>"

definition record_call :: "call \<Rightarrow> state \<Rightarrow> state" where
  "record_call c st = st\<lparr>calls := calls st @ [c]\<rparr>"

definition setTimeout :: "task \<Rightarrow> nat \<Rightarrow> state \<Rightarrow> state" where
  "setTimeout f delay st = st\<lparr>timers := timers st @ [(now st + delay, f)]\<rparr>"

definition nodeIdMap_get :: "(jsval \<times> ref) list \<Rightarrow> jsval \<Rightarrow> ref option" where
  "nodeIdMap_get m k = map_of m k"

definition nodeIdMap_set :: "jsval \<Rightarrow> ref \<Rightarrow> (jsval \<times> ref) list \<Rightarrow> (jsval \<times> ref) list" where
  "nodeIdMap_set k r m =
     (if k \<in> fst ` set m then map (\<lambda>p. if fst p = k then (k, r) else p) m
      else m @ [(k, r)])"

definition nodeIdMap_delete :: "jsval \<Rightarrow> (jsval \<times> ref) list \<Rightarrow> (jsval \<times> ref) list" where
  "nodeIdMap_delete k m = filter (\<lambda>p. fst p \<noteq> k) m"

subsection \<open>Widgets of a node\<close>

fun findIndex :: "('a \<Rightarrow> bool) \<Rightarrow> 'a list \<Rightarrow> nat option" where
  "findIndex P [] = None"
| "findIndex P (x # xs) =
     (if P x then Some 0 else map_option Suc (findIndex P xs))"

text \<open>
  \<^verbatim>\<open>node.widgets.find(w => w.name === wanted)\<close>, as the index of the first match. With
  no \<^verbatim>\<open>widgets\<close> array the first variant throws and the second (\<^verbatim>\<open>widgets?.find\<close>)
  finds nothing.
\<close>

definition find_widget :: "variant \<Rightarrow> node \<Rightarrow> jsval \<Rightarrow> exn + (nat \<times> widget) option" where
  "find_widget v nd wanted =
     (case widgets nd of
        None \<Rightarrow> (if v = V1 then Inl TypeError else Inr None)
      | Some ws \<Rightarrow>
          Inr (map_option (\<lambda>i. (i, ws ! i))
                 (findIndex (\<lambda>w. strict_eq (JStr (name w)) wanted) ws)))"

text \<open>The assignment \<^verbatim>\<open>widget.value = x\<close> to widget \<open>i\<close> of node \<open>r\<close>.\<close>

definition set_widget_value :: "ref \<Rightarrow> nat \<Rightarrow> jsval \<Rightarrow> state \<Rightarrow> state" where
  "set_widget_value r i x st =
     (case widgets (heap st r) of
        None \<Rightarrow> st
      | Some ws \<Rightarrow>
          st\<lparr>heap := (heap st)(r := (heap st r)\<lparr>widgets := Some (ws[i := (ws ! i)\<lparr>wvalue := x\<rparr>])\<rparr>)\<rparr>)"

text \<open>
  The host's \<^verbatim>\<open>addWidget(type, name, value, callback)\<close>: it creates the \<^verbatim>\<open>widgets\<close>
  array when the node has none and appends the new widget. A call on a node without
  the method throws in the first variant and is skipped by \<^verbatim>\<open>addWidget?.(...)\<close> in the
  second.
\<close>

definition addWidget :: "variant \<Rightarrow> ref \<Rightarrow> widget \<Rightarrow> state \<Rightarrow> result" where
  "addWidget v r w st =
     (let nd = heap st r in
      if has_addWidget nd then
        (None, st\<lparr>heap := (heap st)(r := nd\<lparr>widgets :=
           Some ((case widgets nd of None \<Rightarrow> [] | Some ws \<Rightarrow> ws) @ [w])\<rparr>)\<rparr>)
      else if v = V1 then (Some TypeError, st)
      else (None, st))"

subsection \<open>Sequencing and calls to the host\<close>

definition then_do :: "result \<Rightarrow> (state \<Rightarrow> result) \<Rightarrow> result" where
  "then_do res f = (case res of (Some e, st) \<Rightarrow> (Some e, st) | (None, st) \<Rightarrow> f st)"

definition call_host :: "call \<Rightarrow> outcome \<Rightarrow> state \<Rightarrow> result" where
  "call_host c out st =
     (case out of
        Returns \<Rightarrow> (None, record_call c st)
      | Throws \<Rightarrow> (Some HostError, record_call c st))"

text \<open>
  \<^verbatim>\<open>app.queuePrompt(a, b)\<close> in the first variant and \<^verbatim>\<open>app.queuePrompt?.(a, b)\<close> in the
  second.
\<close>

definition call_queuePrompt :: "variant \<Rightarrow> jsval \<Rightarrow> jsval \<Rightarrow> state \<Rightarrow> result" where
  "call_queuePrompt v a b st =
     (case queuePrompt (app st) of
        None \<Rightarrow> (if v = V1 then (Some TypeError, st) else (None, st))
      | Some out \<Rightarrow> call_host (CallQueuePrompt a b) out st)"


section \<open>The node classes and their widget callbacks\<close>

text \<open>
  \<^verbatim>\<open>triggerReset\<close>: \<^verbatim>\<open>app.graphToPrompt().then(workflow => ...)\<close>; the reaction waits
  among the microtasks until the promise is resolved.
\<close>

definition triggerReset :: "variant \<Rightarrow> ref \<Rightarrow> state \<Rightarrow> result" where
  "triggerReset v r st =
     (case graphToPrompt (app st) of
        None \<Rightarrow> (if v = V1 then (Some TypeError, st) else (None, st))
      | Some p \<Rightarrow>
          (let st' = record_call CallGraphToPrompt st in
           case p of
             Resolves out flow \<Rightarrow> (None, st'\<lparr>microtasks := microtasks st' @ [ResetThen out flow]\<rparr>)
           | Rejects \<Rightarrow> (None, st')))"

definition reset_then :: "variant \<Rightarrow> jsval \<Rightarrow> jsval \<Rightarrow> state \<Rightarrow> result" where
  "reset_then v out flow st = (if truthy out then call_queuePrompt v out flow st else (None, st))"

text \<open>\<^verbatim>\<open>this.widgets.find(w => w.name === "start_index").value = x\<close>\<close>

definition set_start_index :: "ref \<Rightarrow> jsval \<Rightarrow> state \<Rightarrow> result" where
  "set_start_index r x st =
     (case find_widget V1 (heap st r) (JStr ''start_index'') of
        Inl e \<Rightarrow> (Some e, st)
      | Inr None \<Rightarrow> (Some TypeError, st)
      | Inr (Some jw) \<Rightarrow> (None, set_widget_value r (fst jw) x st))"

text \<open>\<^verbatim>\<open>this.outputs?.[slot]?.value ?? 0\<close>\<close>

definition read_total :: "node \<Rightarrow> nat \<Rightarrow> jsval" where
  "read_total nd slot =
     (case outputs nd of
        None \<Rightarrow> JNum 0
      | Some os \<Rightarrow> (if slot < length os \<and> \<not> is_nullish (os ! slot) then os ! slot else JNum 0))"

definition call_callback :: "variant \<Rightarrow> callback \<Rightarrow> jsval \<Rightarrow> state \<Rightarrow> result" where
  "call_callback v cb x st =
     (case cb of
        HostCallback out \<Rightarrow>
          (case out of Returns \<Rightarrow> (None, st) | Throws \<Rightarrow> (Some HostError, st))
      | StatusCallback r \<Rightarrow>
          (let st' = log Log ''Status widget updated:'' st
           in (None, st'\<lparr>heap := (heap st')(r := (heap st' r)\<lparr>status := x\<rparr>)\<rparr>))
      | ResetCallback r \<Rightarrow> triggerReset v r st
      | ToStartCallback r \<Rightarrow> set_start_index r (JNum 0) st
      | ToEndCallback r slot \<Rightarrow>
          (let total = read_total (heap st r) slot in
           case ToNumber total of
             Some n \<Rightarrow> (if 0 < n then set_start_index r (JNum (n - 1)) st else (None, st))
           | None \<Rightarrow> (None, st)))"

text \<open>
  An invocation \<^verbatim>\<open>widget.callback(x)\<close> of the callback of widget \<open>i\<close> of node \<open>r\<close>: the
  invocation is recorded, then the callback runs.
\<close>

definition invoke_callback :: "variant \<Rightarrow> ref \<Rightarrow> nat \<Rightarrow> callback \<Rightarrow> jsval \<Rightarrow> state \<Rightarrow> result" where
  "invoke_callback v r i cb x st = call_callback v cb x (record_call (CallWidgetCallback r i x) st)"

datatype node_class = TextQueueProcessorNode | ImageQueueProcessorNode

definition total_slot :: "node_class \<Rightarrow> nat" where
  "total_slot c = (case c of TextQueueProcessorNode \<Rightarrow> 2 | ImageQueueProcessorNode \<Rightarrow> 3)"

definition reset_name :: string where
  "reset_name = [CHR 0xF0, CHR 0x9F, CHR 0x94, CHR 0x84] @ '' Reset''"

definition to_start_name :: string where
  "to_start_name = [CHR 0xE2, CHR 0x8F, CHR 0xAE, CHR 0xEF, CHR 0xB8, CHR 0x8F] @ '' To Start''"

definition to_end_name :: string where
  "to_end_name = [CHR 0xE2, CHR 0x8F, CHR 0xAD, CHR 0xEF, CHR 0xB8, CHR 0x8F] @ '' To End''"

definition button :: "string \<Rightarrow> callback \<Rightarrow> widget" where
  "button n cb = \<lparr>wtype = ''button'', name = n, wvalue = JNull, callback = Some cb\<rparr>"

text \<open>
  \<^verbatim>\<open>addCustomWidgets\<close> of the two classes of the first variant (they differ in the
  output slot that jump-to-end reads), and of the one class of the second variant,
  which attaches the reset button only.
\<close>

definition addCustomWidgets :: "node_class \<Rightarrow> ref \<Rightarrow> state \<Rightarrow> result" where
  "addCustomWidgets c r st =
     then_do (addWidget V1 r (button reset_name (ResetCallback r)) st) (\<lambda>st1.
     then_do (addWidget V1 r (button to_start_name (ToStartCallback r)) st1) (\<lambda>st2.
     addWidget V1 r (button to_end_name (ToEndCallback r (total_slot c))) st2))"

definition addCustomWidgets_V2 :: "ref \<Rightarrow> state \<Rightarrow> result" where
  "addCustomWidgets_V2 r st = addWidget V2 r (button reset_name (ResetCallback r)) st"

text \<open>The constructor of the classes of the first variant.\<close>

definition constructor :: "node_class \<Rightarrow> ref \<Rightarrow> state \<Rightarrow> result" where
  "constructor c r st =
     addCustomWidgets c r
       (if \<not> properties (heap st r)
        then st\<lparr>heap := (heap st)(r := (heap st r)\<lparr>properties := True\<rparr>)\<rparr>
        else st)"

section \<open>Registration of the node classes\<close>

text \<open>
  The extension \<^verbatim>\<open>rgthree.TextBatch\<close> merges a class into a node type with
  \<^verbatim>\<open>Object.assign(nodeType.prototype, Class.prototype)\<close>. A prototype is modelled by its
  own properties, each with the flag that says whether it is enumerable.
  \<^verbatim>\<open>Object.assign\<close> copies the own enumerable properties of its source; the methods
  that a class body declares, its constructor included, are not enumerable.
\<close>

datatype member = Constructor node_class | AddCustomWidgets node_class | TriggerReset node_class
  | HostMember nat

record property =
  key :: string
  member :: member
  enumerable :: bool

definition class_prototype :: "node_class \<Rightarrow> property list" where
  "class_prototype c =
     [\<lparr>key = ''constructor'', member = Constructor c, enumerable = False\<rparr>,
      \<lparr>key = ''addCustomWidgets'', member = AddCustomWidgets c, enumerable = False\<rparr>,
      \<lparr>key = ''triggerReset'', member = TriggerReset c, enumerable = False\<rparr>]"

text \<open>An assignment \<^verbatim>\<open>target[k] = m\<close>: an own property keeps its place and flag, a new one
  is enumerable.\<close>

definition assign_property :: "property list \<Rightarrow> property \<Rightarrow> property list" where
  "assign_property target p =
     (if key p \<in> key ` set target
      then map (\<lambda>q. if key q = key p then q\<lparr>member := member p\<rparr> else q) target
      else target @ [p\<lparr>enumerable := True\<rparr>])"

definition Object_assign :: "property list \<Rightarrow> property list \<Rightarrow> property list" where
  "Object_assign target source = foldl assign_property target (filter enumerable source)"

text \<open>
  \<^verbatim>\<open>beforeRegisterNodeDef\<close> of \<^verbatim>\<open>rgthree.TextBatch\<close>, on the prototype of the node type
  named \<open>nm\<close>. The second variant of the file declares no class
  \<^verbatim>\<open>ImageQueueProcessorNode\<close>, so that the reference to it throws.
\<close>

definition beforeRegisterNodeDef_rgthree :: "variant \<Rightarrow> string \<Rightarrow> property list \<Rightarrow> exn + property list" where
  "beforeRegisterNodeDef_rgthree v nm proto =
     (if nm = ''TextQueueProcessor''
      then Inr (Object_assign proto (class_prototype TextQueueProcessorNode))
      else if nm = ''ImageQueueProcessor''
      then (if v = V1 then Inr (Object_assign proto (class_prototype ImageQueueProcessorNode))
            else Inl ReferenceError)
      else Inr proto)"

section \<open>The handler of \<^verbatim>\<open>textbatch-node-feedback\<close>\<close>

record custom_event =
  detail :: "feedback_data option"

text \<open>
  The three lookups of the host that follow a miss in \<^verbatim>\<open>nodeIdMap\<close>, joined by
  \<^verbatim>\<open>||\<close>: the table \<^verbatim>\<open>_nodes_by_id\<close>, \<^verbatim>\<open>getNodeById(parseInt(nodeId))\<close>, and the scan
  \<^verbatim>\<open>nodes.find(n => n.id == nodeId)\<close>. The second variant guards each against a
  missing member with \<^verbatim>\<open>?.\<close>; \<^verbatim>\<open>app.graph\<close> itself is dereferenced by both.
\<close>

definition by_id_lookup :: "variant \<Rightarrow> graph \<Rightarrow> jsval \<Rightarrow> exn + ref option" where
  "by_id_lookup v g nodeId =
     (case nodes_by_id g of
        None \<Rightarrow> (if v = V1 then Inl TypeError else Inr None)
      | Some tbl \<Rightarrow> Inr (tbl (ToString nodeId)))"

definition getter_lookup :: "variant \<Rightarrow> graph \<Rightarrow> jsval \<Rightarrow> exn + ref option" where
  "getter_lookup v g nodeId =
     (case getNodeById g of
        None \<Rightarrow> (if v = V1 then Inl TypeError else Inr None)
      | Some f \<Rightarrow> Inr (f (parseInt nodeId)))"

definition scan_lookup :: "variant \<Rightarrow> state \<Rightarrow> graph \<Rightarrow> jsval \<Rightarrow> exn + ref option" where
  "scan_lookup v st g nodeId =
     (case nodes g of
        None \<Rightarrow> (if v = V1 then Inl TypeError else Inr None)
      | Some ns \<Rightarrow> Inr (find (\<lambda>n. loose_eq (ident (heap st n)) nodeId) ns))"

definition resolve_node :: "variant \<Rightarrow> state \<Rightarrow> jsval \<Rightarrow> exn + ref option" where
  "resolve_node v st nodeId =
     (case nodeIdMap_get (nodeIdMap st) nodeId of
        Some r \<Rightarrow> Inr (Some r)
      | None \<Rightarrow>
          (case graph (app st) of
             None \<Rightarrow> Inl TypeError
           | Some g \<Rightarrow>
               (case by_id_lookup v g nodeId of
                  Inl e \<Rightarrow> Inl e
                | Inr (Some r) \<Rightarrow> Inr (Some r)
                | Inr None \<Rightarrow>
                    (case getter_lookup v g nodeId of
                       Inl e \<Rightarrow> Inl e
                     | Inr (Some r) \<Rightarrow> Inr (Some r)
                     | Inr None \<Rightarrow> scan_lookup v st g nodeId))))"

text \<open>The value assigned to the widget: \<^verbatim>\<open>parseInt(data.value)\<close> when
  \<^verbatim>\<open>data.type === "int"\<close>, \<^verbatim>\<open>data.value\<close> otherwise.\<close>

definition coerced :: "feedback_data \<Rightarrow> jsval" where
  "coerced data = (if strict_eq (type data) (JStr ''int'') then parseInt (dvalue data) else dvalue data)"

text \<open>The body of the \<^verbatim>\<open>try\<close> block.\<close>

definition feedback_try :: "variant \<Rightarrow> custom_event \<Rightarrow> state \<Rightarrow> result" where
  "feedback_try v event st =
     (case detail event of
        None \<Rightarrow> (None, log Error ''Invalid data received:'' st)
      | Some data \<Rightarrow>
          (if \<not> truthy (node_id data) then (None, log Error ''Invalid data received:'' st)
           else
             (let nodeId = node_id data;
                  st1 = log Log ''Looking for node:'' st
              in (case resolve_node v st1 nodeId of
                    Inl e \<Rightarrow> (Some e, st1)
                  | Inr None \<Rightarrow> (None, log Warn ''Node not found by ID:'' st1)
                  | Inr (Some r) \<Rightarrow>
                      (let st2 = log Log ''Found node:'' st1 in
                       (case find_widget v (heap st2 r) (widget_name data) of
                          Inl e \<Rightarrow> (Some e, st2)
                        | Inr None \<Rightarrow> (None, log Warn ''Widget not found:'' st2)
                        | Inr (Some iw) \<Rightarrow>
                            (let i = fst iw;
                                 x = coerced data;
                                 st3 = set_widget_value r i x
                                         (if strict_eq (type data) (JStr ''int'')
                                          then log Log ''Updating widget value:'' st2 else st2)
                             in (case callback (snd iw) of
                                   None \<Rightarrow> (None, st3)
                                 | Some cb \<Rightarrow> invoke_callback v r i cb x st3))))))))"

text \<open>The handler: the log before the \<^verbatim>\<open>try\<close>, the body, and the \<^verbatim>\<open>catch\<close>.\<close>

definition feedback_handler :: "variant \<Rightarrow> custom_event \<Rightarrow> state \<Rightarrow> result" where
  "feedback_handler v event st =
     (case feedback_try v event (log Log ''Received node feedback:'' st) of
        (Some e, st') \<Rightarrow> (None, log Error ''Error in node feedback handler:'' st')
      | (None, st') \<Rightarrow> (None, st'))"

section \<open>The handler of \<^verbatim>\<open>textbatch-add-queue\<close>\<close>



text \<open>The function given to \<^verbatim>\<open>setTimeout\<close>, with its own \<^verbatim>\<open>try\<close> and \<^verbatim>\<open>catch\<close>.\<close>

definition queue_timeout :: "variant \<Rightarrow> state \<Rightarrow> result" where
  "queue_timeout v st =
     (case call_queuePrompt v (JNum 0) (JNum 1) (log Log ''Executing queued prompt'' st) of
        (Some e, st') \<Rightarrow> (None, log Error ''Error queueing prompt:'' st')
      | (None, st') \<Rightarrow> (None, log Log ''Queue prompt executed'' st'))"

section \<open>Node lifecycle\<close>

text \<open>The node types that \<^verbatim>\<open>beforeRegisterNodeDef\<close> of \<^verbatim>\<open>TextBatch.TextBatchNode\<close> extends.\<close>

definition handled :: "string \<Rightarrow> bool" where
  "handled nm =
     (nm = ''TextBatch'' \<or> nm = ''TextQueueProcessor'' \<or> nm = ''ZippedPromptBatch''
      \<or> nm = ''ZippedPromptBatchAdvanced'')"

definition status_widget :: "ref \<Rightarrow> widget" where
  "status_widget r =
     \<lparr>wtype = ''text'', name = ''status'', wvalue = JStr [], callback = Some (StatusCallback r)\<rparr>"

text \<open>
  \<^verbatim>\<open>nodeIdMap.set(this.id, this)\<close> followed by
  \<^verbatim>\<open>this.addWidget("text", "status", "", (v) => {...})\<close>.
\<close>

definition register_node :: "variant \<Rightarrow> ref \<Rightarrow> state \<Rightarrow> result" where
  "register_node v r st =
     addWidget v r (status_widget r)
       (st\<lparr>nodeIdMap := nodeIdMap_set (ident (heap st r)) r (nodeIdMap st)\<rparr>)"

text \<open>The handler that the prototype held before, if any, applied to the same arguments.\<close>

definition call_prev :: "call \<Rightarrow> outcome option \<Rightarrow> state \<Rightarrow> result" where
  "call_prev c prev st = (case prev of None \<Rightarrow> (None, st) | Some out \<Rightarrow> call_host c out st)"

text \<open>The function given to \<^verbatim>\<open>setTimeout(..., 0)\<close> by \<^verbatim>\<open>onNodeCreated\<close>.\<close>

definition deferred_init :: "variant \<Rightarrow> ref \<Rightarrow> string \<Rightarrow> state \<Rightarrow> result" where
  "deferred_init v r nm st =
     (case v of
        V1 \<Rightarrow>
          (let st1 = log Log ''Retrying node initialization:'' st in
           if truthy (ident (heap st1 r)) \<and> \<not> strict_eq (ident (heap st1 r)) (JNum (- 1))
           then register_node V1 r st1
           else (None, st1))
      | V2 \<Rightarrow>
          (if truthy (ident (heap st r)) \<and> \<not> strict_eq (ident (heap st r)) (JNum (- 1))
           then register_node V2 r (log Log ''Retrying node initialization:'' st)
           else (None, st)))"

text \<open>
  The override of \<^verbatim>\<open>onNodeCreated\<close> for a node type named \<open>nm\<close>, on node \<open>r\<close>; \<open>prev\<close>
  is the handler found on the prototype at registration. The value it returns is the
  previous handler's and is not modelled.
\<close>

definition onNodeCreated :: "variant \<Rightarrow> outcome option \<Rightarrow> string \<Rightarrow> ref \<Rightarrow> jsval list \<Rightarrow> state \<Rightarrow> result" where
  "onNodeCreated v prev nm r args st =
     then_do (call_prev (CallPrevOnNodeCreated r args) prev st) (\<lambda>st1.
       if \<not> truthy (ident (heap st1 r)) \<or> strict_eq (ident (heap st1 r)) (JNum (- 1))
       then (None, setTimeout (DeferredInit r nm) 0
                     (log Warn ''Invalid node ID detected, waiting for proper initialization'' st1))
       else register_node v r (log Log ''Node created:'' st1))"

text \<open>The override of \<^verbatim>\<open>onRemoved\<close>.\<close>

definition onRemoved :: "variant \<Rightarrow> outcome option \<Rightarrow> ref \<Rightarrow> jsval list \<Rightarrow> state \<Rightarrow> result" where
  "onRemoved v prev r args st =
     (case v of
        V1 \<Rightarrow>
          (let st1 = log Log ''Node removed:'' st;
               st2 = st1\<lparr>nodeIdMap := nodeIdMap_delete (ident (heap st1 r)) (nodeIdMap st1)\<rparr>
           in call_prev (CallPrevOnRemoved r args) prev st2)
      | V2 \<Rightarrow>
          (let st2 =
                 (if truthy (ident (heap st r))
                  then (let st1 = log Log ''Node removed:'' st
                        in st1\<lparr>nodeIdMap := nodeIdMap_delete (ident (heap st1 r)) (nodeIdMap st1)\<rparr>)
                  else st)
           in call_prev (CallPrevOnRemoved r args) prev st2))"

text \<open>
  What the prototype's two handlers do once \<^verbatim>\<open>beforeRegisterNodeDef\<close> has seen the
  node type: the overrides for a handled type, the previous handlers otherwise.
\<close>

definition nodeType_onNodeCreated :: "variant \<Rightarrow> outcome option \<Rightarrow> string \<Rightarrow> ref \<Rightarrow> jsval list \<Rightarrow> state \<Rightarrow> result" where
  "nodeType_onNodeCreated v prev nm r args st =
     (if handled nm then onNodeCreated v prev nm r args st
      else call_prev (CallPrevOnNodeCreated r args) prev st)"

definition nodeType_onRemoved :: "variant \<Rightarrow> outcome option \<Rightarrow> string \<Rightarrow> ref \<Rightarrow> jsval list \<Rightarrow> state \<Rightarrow> result" where
  "nodeType_onRemoved v prev nm r args st =
     (if handled nm then onRemoved v prev r args st
      else call_prev (CallPrevOnRemoved r args) prev st)"

section \<open>The event loop\<close>

definition run_task :: "variant \<Rightarrow> task \<Rightarrow> state \<Rightarrow> result" where
  "run_task v t st =
     (case t of
        QueuePromptTask \<Rightarrow> queue_timeout v st
      | DeferredInit r nm \<Rightarrow> deferred_init v r nm st
      | ResetThen out flow \<Rightarrow> reset_then v out flow st)"

text \<open>An exception that escapes a task is reported by the browser and the loop goes on.\<close>

fun run_tasks :: "variant \<Rightarrow> task list \<Rightarrow> state \<Rightarrow> state" where
  "run_tasks v [] st = st"
| "run_tasks v (t # ts) st = run_tasks v ts (snd (run_task v t st))"


definition run_microtasks :: "variant \<Rightarrow> state \<Rightarrow> state" where
  "run_microtasks v st = run_tasks v (microtasks st) (st\<lparr>microtasks := []\<rparr>)"

section \<open>Observations\<close>

text \<open>The value of widget \<open>i\<close> of node \<open>r\<close>, when the node has such a widget.\<close>

definition widget_value :: "state \<Rightarrow> ref \<Rightarrow> nat \<Rightarrow> jsval option" where
  "widget_value st r i =
     (case widgets (heap st r) of
        None \<Rightarrow> None
      | Some ws \<Rightarrow> (if i < length ws then Some (wvalue (ws ! i)) else None))"

definition is_widget_call :: "call \<Rightarrow> bool" where
  "is_widget_call c = (case c of CallWidgetCallback r i x \<Rightarrow> True | _ \<Rightarrow> False)"

definition is_queue_call :: "call \<Rightarrow> bool" where
  "is_queue_call c = (case c of CallQueuePrompt a b \<Rightarrow> True | _ \<Rightarrow> False)"

text \<open>The invocations of widget callbacks, and the calls of \<^verbatim>\<open>app.queuePrompt\<close>, so far.\<close>

definition widget_calls :: "state \<Rightarrow> call list" where
  "widget_calls st = filter is_widget_call (calls st)"

definition queue_calls :: "state \<Rightarrow> call list" where
  "queue_calls st = filter is_queue_call (calls st)"



text \<open>
  Each closure of \<^verbatim>\<open>js/textbatch.js\<close> is created in a call of \<^verbatim>\<open>addWidget\<close> that also
  fixes the widget's name: a widget that carries one has that name.
\<close>

definition closure_name :: "callback \<Rightarrow> string option" where
  "closure_name cb =
     (case cb of
        HostCallback out \<Rightarrow> None
      | StatusCallback r \<Rightarrow> Some ''status''
      | ResetCallback r \<Rightarrow> Some reset_name
      | ToStartCallback r \<Rightarrow> Some to_start_name
      | ToEndCallback r slot \<Rightarrow> Some to_end_name)"

definition wf_widget :: "widget \<Rightarrow> bool" where
  "wf_widget w =
     (case callback w of
        None \<Rightarrow> True
      | Some cb \<Rightarrow> (case closure_name cb of None \<Rightarrow> True | Some n \<Rightarrow> name w = n))"

text \<open>\<^verbatim>\<open>this.id && this.id !== -1\<close>\<close>

definition valid_id :: "jsval \<Rightarrow> bool" where
  "valid_id x = (truthy x \<and> \<not> strict_eq x (JNum (- 1)))"

section \<open>Example states\<close>

definition blank_node :: node where
  "blank_node =
     \<lparr>ident = JNum (- 1), widgets = None, outputs = None, status = JUndefined,
      properties = False, has_addWidget = True\<rparr>"

definition index_widget :: widget where
  "index_widget =
     \<lparr>wtype = ''number'', name = ''start_index'', wvalue = JNum 7,
      callback = Some (HostCallback Returns)\<rparr>"

definition node5 :: node where
  "node5 =
     \<lparr>ident = JNum 5, widgets = Some [index_widget], outputs = None, status = JUndefined,
      properties = True, has_addWidget = True\<rparr>"

definition graph5 :: graph where
  "graph5 =
     \<lparr>nodes_by_id = Some (\<lambda>k. if k = ''5'' then Some 0 else None),
      getNodeById = Some (\<lambda>x. if x = JNum 5 then Some 0 else None),
      nodes = Some [0],
      serialize = Some Returns\<rparr>"

definition app5 :: app where
  "app5 =
     \<lparr>graph = Some graph5, isProcessing = False, queuePrompt = Some Returns,
      graphToPrompt = Some (Resolves (JBool True) (JBool True))\<rparr>"

text \<open>A page with one node, of identifier 5, known to the host and not yet in the cache.\<close>

definition state5 :: state where
  "state5 =
     \<lparr>nodeIdMap = [], heap = (\<lambda>r. blank_node)(0 := node5), app = app5, console = [],
      timers = [], microtasks = [], now = 0, calls = []\<rparr>"

definition feedback :: "jsval \<Rightarrow> jsval \<Rightarrow> jsval \<Rightarrow> jsval \<Rightarrow> custom_event" where
  "feedback a b c d = \<lparr>detail = Some \<lparr>node_id = a, widget_name = b, type = c, dvalue = d\<rparr>\<rparr>"

text \<open>A page whose one node has the identifier 0, known to the host under the key \<^verbatim>\<open>"0"\<close>.\<close>

definition node_zero :: node where
  "node_zero =
     \<lparr>ident = JNum 0, widgets = Some [index_widget], outputs = None, status = JUndefined,
      properties = True, has_addWidget = True\<rparr>"

definition graph_zero :: graph where
  "graph_zero =
     \<lparr>nodes_by_id = Some (\<lambda>k. if k = ''0'' then Some 0 else None),
      getNodeById = Some (\<lambda>x. if x = JNum 0 then Some 0 else None),
      nodes = Some [0],
      serialize = Some Returns\<rparr>"

definition state_zero :: state where
  "state_zero =
     state5\<lparr>heap := (\<lambda>r. blank_node)(0 := node_zero), app := app5\<lparr>graph := Some graph_zero\<rparr>\<rparr>"




section \<open>Basic facts\<close>

lemma log_fields [simp]:
  "heap (log l m st) = heap st" "nodeIdMap (log l m st) = nodeIdMap st" "app (log l m st) = app st"
  "calls (log l m st) = calls st" "timers (log l m st) = timers st" "now (log l m st) = now st"
  "microtasks (log l m st) = microtasks st" "console (log l m st) = console st @ [(l, m)]"
  by (simp_all add: log_def)

lemma record_call_fields [simp]:
  "heap (record_call c st) = heap st" "nodeIdMap (record_call c st) = nodeIdMap st"
  "app (record_call c st) = app st" "calls (record_call c st) = calls st @ [c]"
  "timers (record_call c st) = timers st" "now (record_call c st) = now st"
  "microtasks (record_call c st) = microtasks st" "console (record_call c st) = console st"
  by (simp_all add: record_call_def)

lemma setTimeout_fields [simp]:
  "heap (setTimeout f d st) = heap st" "nodeIdMap (setTimeout f d st) = nodeIdMap st"
  "app (setTimeout f d st) = app st" "calls (setTimeout f d st) = calls st"
  "timers (setTimeout f d st) = timers st @ [(now st + d, f)]" "now (setTimeout f d st) = now st"
  "microtasks (setTimeout f d st) = microtasks st" "console (setTimeout f d st) = console st"
  by (simp_all add: setTimeout_def)

lemma findIndex_Some: "findIndex P xs = Some i \<Longrightarrow> i < length xs \<and> P (xs ! i)"
proof (induction xs arbitrary: i)
  case Nil
  then show ?case by simp
next
  case (Cons x xs)
  then show ?case by (cases "P x") auto
qed

lemma find_widget_found:
  assumes "find_widget v nd wanted = Inr (Some (i, w))"
  shows "\<exists>ws. widgets nd = Some ws \<and> i < length ws \<and> w = ws ! i \<and> strict_eq (JStr (name w)) wanted"
  using assms findIndex_Some [of "\<lambda>w. strict_eq (JStr (name w)) wanted"]
  by (auto simp: find_widget_def split: option.splits if_splits)

lemma resolve_node_frame:
  assumes "nodeIdMap st' = nodeIdMap st" "app st' = app st" "heap st' = heap st"
  shows "resolve_node v st' x = resolve_node v st x"
  using assms by (simp add: resolve_node_def scan_lookup_def cong: option.case_cong sum.case_cong)

lemma resolve_node_log [simp]: "resolve_node v (log l m st) x = resolve_node v st x"
  by (rule resolve_node_frame) simp_all

lemma widget_value_heap: "heap st' = heap st \<Longrightarrow> widget_value st' r i = widget_value st r i"
  by (simp add: widget_value_def)

lemma triggerReset_frame:
  "heap (snd (triggerReset v r st)) = heap st"
  "widget_calls (snd (triggerReset v r st)) = widget_calls st"
  by (simp_all add: triggerReset_def widget_calls_def is_widget_call_def Let_def
      split: option.splits promise.splits)

lemma set_widget_value_fields [simp]:
  "nodeIdMap (set_widget_value r i x st) = nodeIdMap st" "app (set_widget_value r i x st) = app st"
  "calls (set_widget_value r i x st) = calls st" "timers (set_widget_value r i x st) = timers st"
  "now (set_widget_value r i x st) = now st" "microtasks (set_widget_value r i x st) = microtasks st"
  "console (set_widget_value r i x st) = console st"
  by (simp_all add: set_widget_value_def split: option.splits)

lemma set_widget_value_widgets:
  assumes "widgets (heap st r) = Some ws"
  shows "widgets (heap (set_widget_value r i x st) r) = Some (ws[i := (ws ! i)\<lparr>wvalue := x\<rparr>])"
    and "r' \<noteq> r \<Longrightarrow> heap (set_widget_value r i x st) r' = heap st r'"
  using assms by (simp_all add: set_widget_value_def)

lemma widget_value_set_same:
  assumes "widgets (heap st r) = Some ws" "i < length ws"
  shows "widget_value (set_widget_value r i x st) r i = Some x"
  using assms by (simp add: widget_value_def set_widget_value_def)

lemma widget_value_set_other:
  assumes "r' \<noteq> r \<or> j \<noteq> i"
  shows "widget_value (set_widget_value r' j x st) r i = widget_value st r i"
  using assms by (auto simp: widget_value_def set_widget_value_def split: option.splits)

lemma start_index_not_button:
  "to_start_name \<noteq> ''start_index''" "to_end_name \<noteq> ''start_index''"
  by (simp_all add: to_start_name_def to_end_name_def)

lemma set_start_index_calls: "calls (snd (set_start_index r' x st)) = calls st"
  by (simp add: set_start_index_def split: sum.splits option.splits)

lemma set_start_index_keeps:
  assumes "widgets (heap st r) = Some ws" "i < length ws" "name (ws ! i) \<noteq> ''start_index''"
  shows "widget_value (snd (set_start_index r' x st)) r i = widget_value st r i"
proof (cases "find_widget V1 (heap st r') (JStr ''start_index'')")
  case (Inl e)
  then show ?thesis by (simp add: set_start_index_def)
next
  case (Inr found)
  show ?thesis
  proof (cases found)
    case None
    with Inr show ?thesis by (simp add: set_start_index_def)
  next
    case (Some jw)
    obtain j w where jw: "jw = (j, w)" by (cases jw)
    from Inr Some jw find_widget_found [of V1 "heap st r'" "JStr ''start_index''" j w]
    obtain ws' where ws': "widgets (heap st r') = Some ws'" "j < length ws'" "w = ws' ! j"
      "name w = ''start_index''"
      by (auto simp: strict_eq_def)
    have "r' \<noteq> r \<or> j \<noteq> i"
      using ws' assms by auto
    then show ?thesis
      using Inr Some jw by (simp add: set_start_index_def widget_value_set_other)
  qed
qed

lemma call_callback_keeps:
  assumes ws: "widgets (heap st r) = Some ws" "i < length ws"
    and nm: "closure_name cb = None \<or> closure_name cb = Some (name (ws ! i))"
  shows "widget_value (snd (call_callback v cb x st)) r i = widget_value st r i"
    and "widget_calls (snd (call_callback v cb x st)) = widget_calls st"
proof -
  have both: "widget_value (snd (call_callback v cb x st)) r i = widget_value st r i
      \<and> widget_calls (snd (call_callback v cb x st)) = widget_calls st"
  proof (cases cb)
    case (HostCallback out)
    then show ?thesis by (cases out) (simp_all add: call_callback_def)
  next
    case (StatusCallback r')
    then show ?thesis
      by (simp add: call_callback_def widget_value_def widget_calls_def Let_def)
  next
    case (ResetCallback r')
    have "widget_value (snd (triggerReset v r' st)) r i = widget_value st r i"
      by (rule widget_value_heap) (simp add: triggerReset_frame)
    with ResetCallback show ?thesis
      by (simp add: call_callback_def triggerReset_frame)
  next
    case (ToStartCallback r')
    with nm have n: "name (ws ! i) \<noteq> ''start_index''"
      using start_index_not_button(1) by (simp add: closure_name_def)
    have "widget_value (snd (set_start_index r' (JNum 0) st)) r i = widget_value st r i"
      using ws n by (rule set_start_index_keeps)
    with ToStartCallback show ?thesis
      by (simp add: call_callback_def widget_calls_def set_start_index_calls)
  next
    case (ToEndCallback r' slot)
    with nm have n: "name (ws ! i) \<noteq> ''start_index''"
      using start_index_not_button(2) by (simp add: closure_name_def)
    have k: "\<And>y. widget_value (snd (set_start_index r' y st)) r i = widget_value st r i"
      using ws n by (rule set_start_index_keeps)
    show ?thesis
    proof (cases "ToNumber (read_total (heap st r') slot)")
      case None
      with ToEndCallback show ?thesis by (simp add: call_callback_def)
    next
      case (Some n)
      with ToEndCallback k show ?thesis
        by (simp add: call_callback_def widget_calls_def set_start_index_calls)
    qed
  qed
  from both show "widget_value (snd (call_callback v cb x st)) r i = widget_value st r i" ..
  from both show "widget_calls (snd (call_callback v cb x st)) = widget_calls st" ..
qed

lemma feedback_found:
  assumes d: "detail event = Some data"
    and t: "truthy (node_id data)"
    and res: "resolve_node v st (node_id data) = Inr (Some r)"
    and fw: "find_widget v (heap st r) (widget_name data) = Inr (Some (i, w))"
    and wf: "wf_widget w"
  shows "\<exists>st'. feedback_handler v event st = (None, st')
           \<and> widget_value st' r i = Some (coerced data)
           \<and> widget_calls st' = widget_calls st @
               (case callback w of None \<Rightarrow> [] | Some cb \<Rightarrow> [CallWidgetCallback r i (coerced data)])"
proof -
  from fw obtain ws where ws: "widgets (heap st r) = Some ws" "i < length ws" "w = ws ! i"
    using find_widget_found by blast
  define st0 where "st0 = log Log ''Received node feedback:'' st"
  define st1 where "st1 = log Log ''Looking for node:'' st0"
  define st2 where "st2 = log Log ''Found node:'' st1"
  define st2' where "st2' = (if strict_eq (type data) (JStr ''int'')
     then log Log ''Updating widget value:'' st2 else st2)"
  define st3 where "st3 = set_widget_value r i (coerced data) st2'"
  have h2: "heap st2' = heap st" "calls st2' = calls st"
    by (simp_all add: st2'_def st2_def st1_def st0_def)
  have res1: "resolve_node v st1 (node_id data) = Inr (Some r)"
    using res by (simp add: st1_def st0_def)
  have fw2: "find_widget v (heap st2 r) (widget_name data) = Inr (Some (i, w))"
    using fw by (simp add: st2_def st1_def st0_def)
  have body: "feedback_try v event st0 =
      (case callback w of None \<Rightarrow> (None, st3)
       | Some cb \<Rightarrow> invoke_callback v r i cb (coerced data) st3)"
    using d t res1 fw2
    by (simp add: feedback_try_def Let_def st1_def [symmetric] st2_def [symmetric]
        st2'_def [symmetric] st3_def cong: option.case_cong)
  have w3: "widgets (heap st3 r) = Some (ws[i := (ws ! i)\<lparr>wvalue := coerced data\<rparr>])"
    using ws h2 by (simp add: st3_def set_widget_value_widgets)
  have v3: "widget_value st3 r i = Some (coerced data)"
    using ws h2 by (simp add: st3_def widget_value_set_same)
  have c3: "widget_calls st3 = widget_calls st"
    using h2 by (simp add: st3_def widget_calls_def)
  show ?thesis
  proof (cases "callback w")
    case None
    with body v3 c3 show ?thesis
      by (simp add: feedback_handler_def st0_def [symmetric])
  next
    case (Some cb)
    define st4 where "st4 = record_call (CallWidgetCallback r i (coerced data)) st3"
    have w4: "widgets (heap st4 r) = Some (ws[i := (ws ! i)\<lparr>wvalue := coerced data\<rparr>])"
      using w3 by (simp add: st4_def)
    have len: "i < length (ws[i := (ws ! i)\<lparr>wvalue := coerced data\<rparr>])"
      using ws by simp
    have nm0: "closure_name cb = None \<or> closure_name cb = Some (name w)"
      using wf Some by (cases "closure_name cb") (simp_all add: wf_widget_def)
    have "name ((ws[i := (ws ! i)\<lparr>wvalue := coerced data\<rparr>]) ! i) = name w"
      using ws by simp
    with nm0 have nm: "closure_name cb = None \<or> closure_name cb =
        Some (name ((ws[i := (ws ! i)\<lparr>wvalue := coerced data\<rparr>]) ! i))"
      by simp
    obtain e st5 where run: "call_callback v cb (coerced data) st4 = (e, st5)"
      by (cases "call_callback v cb (coerced data) st4")
    have st5: "st5 = snd (call_callback v cb (coerced data) st4)"
      using run by simp
    have "widget_value st5 r i = widget_value st4 r i"
      unfolding st5 using w4 len nm by (rule call_callback_keeps(1))
    also have "\<dots> = widget_value st3 r i"
      by (rule widget_value_heap) (simp add: st4_def)
    finally have v5: "widget_value st5 r i = Some (coerced data)"
      using v3 by simp
    have "widget_calls st5 = widget_calls st4"
      unfolding st5 using w4 len nm by (rule call_callback_keeps(2))
    also have "\<dots> = widget_calls st3 @ [CallWidgetCallback r i (coerced data)]"
      by (simp add: st4_def widget_calls_def is_widget_call_def)
    finally have c5: "widget_calls st5 = widget_calls st @ [CallWidgetCallback r i (coerced data)]"
      using c3 by simp
    have tried: "feedback_try v event st0 = (e, st5)"
      using body Some run by (simp add: invoke_callback_def st4_def)
    show ?thesis
    proof (cases e)
      case None
      with tried have "feedback_handler v event st = (None, st5)"
        by (simp add: feedback_handler_def st0_def [symmetric])
      with v5 c5 Some show ?thesis by simp
    next
      case (Some ex)
      with tried have "feedback_handler v event st =
          (None, log Error ''Error in node feedback handler:'' st5)"
        by (simp add: feedback_handler_def st0_def [symmetric])
      moreover have "widget_value (log Error ''Error in node feedback handler:'' st5) r i
          = widget_value st5 r i"
        by (rule widget_value_heap) simp
      moreover note v5
      moreover have "widget_calls (log Error ''Error in node feedback handler:'' st5)
          = widget_calls st @ [CallWidgetCallback r i (coerced data)]"
        using c5 by (simp add: widget_calls_def)
      ultimately show ?thesis using \<open>callback w = Some cb\<close> by simp
    qed
  qed
qed

section \<open>Feedback events\<close>

text \<open>
  C1. When the node identifier of a feedback event is resolved to node \<open>r\<close> (by the
  cache or by one of the host's lookups) and the widget name is found as widget \<open>i\<close> of
  that node, the handler returns normally, the value of that widget is afterwards the
  coerced value of the event (\<^verbatim>\<open>parseInt\<close> of the value for type \<^verbatim>\<open>"int"\<close>, the value
  itself otherwise), and the widget's callback, if it has one, has been invoked exactly
  once, with that value; a widget without callback causes no invocation. The widget is
  taken to carry the name under which its callback was created (\<open>wf_widget\<close>).
\<close>

theorem feedback_updates_widget_and_calls_back_once:
  assumes "detail event = Some data"
    and "truthy (node_id data)"
    and "resolve_node v st (node_id data) = Inr (Some r)"
    and "find_widget v (heap st r) (widget_name data) = Inr (Some (i, w))"
    and "wf_widget w"
  shows "\<exists>st'. feedback_handler v event st = (None, st')
           \<and> widget_value st' r i = Some (coerced data)
           \<and> widget_calls st' = widget_calls st @
               (case callback w of None \<Rightarrow> [] | Some cb \<Rightarrow> [CallWidgetCallback r i (coerced data)])"
  using assms by (rule feedback_found)

theorem feedback_updates_widget_and_calls_back_once_witness:
  "detail (feedback (JStr ''5'') (JStr ''start_index'') (JStr ''int'') (JStr ''42''))
     = Some \<lparr>node_id = JStr ''5'', widget_name = JStr ''start_index'', type = JStr ''int'',
             dvalue = JStr ''42''\<rparr>
   \<and> truthy (JStr ''5'')
   \<and> resolve_node V1 state5 (JStr ''5'') = Inr (Some 0)
   \<and> find_widget V1 (heap state5 0) (JStr ''start_index'') = Inr (Some (0, index_widget))
   \<and> wf_widget index_widget
   \<and> (\<exists>st'. feedback_handler V1
               (feedback (JStr ''5'') (JStr ''start_index'') (JStr ''int'') (JStr ''42'')) state5
               = (None, st')
         \<and> widget_value st' 0 0 = Some (JNum 42)
         \<and> widget_calls st' = [CallWidgetCallback 0 0 (JNum 42)])"
proof -
  let ?d = "\<lparr>node_id = JStr ''5'', widget_name = JStr ''start_index'', type = JStr ''int'',
             dvalue = JStr ''42''\<rparr>"
  have a: "detail (feedback (JStr ''5'') (JStr ''start_index'') (JStr ''int'') (JStr ''42'')) = Some ?d"
    by (simp add: feedback_def)
  have b: "truthy (node_id ?d)" by (simp add: truthy_def)
  have c: "resolve_node V1 state5 (node_id ?d) = Inr (Some 0)" by code_simp
  have d: "find_widget V1 (heap state5 0) (widget_name ?d) = Inr (Some (0, index_widget))"
    by (simp add: find_widget_def state5_def node5_def strict_eq_def index_widget_def)
  have e: "wf_widget index_widget"
    by (simp add: wf_widget_def index_widget_def closure_name_def)
  have f: "coerced ?d = JNum 42" by code_simp
  have g: "widget_calls state5 = []" by (simp add: widget_calls_def state5_def)
  have h: "callback index_widget = Some (HostCallback Returns)" by (simp add: index_widget_def)
  show ?thesis
    using feedback_updates_widget_and_calls_back_once [OF a b c d e] a b c d e
    by (simp add: f g h)
qed

text \<open>
  C2. Under the same conditions the value assigned to the widget is \<^verbatim>\<open>parseInt\<close> of the
  event's value when the type tag is the string \<^verbatim>\<open>"int"\<close>, and the event's value
  unchanged for every other type tag. The value \<^verbatim>\<open>"42"\<close> is parsed to the number 42,
  which is not the string \<^verbatim>\<open>"42"\<close>.
\<close>

theorem feedback_int_value_is_parsed:
  assumes "detail event = Some data"
    and "truthy (node_id data)"
    and "resolve_node v st (node_id data) = Inr (Some r)"
    and "find_widget v (heap st r) (widget_name data) = Inr (Some (i, w))"
    and "wf_widget w"
  shows "(\<exists>st'. feedback_handler v event st = (None, st')
            \<and> widget_value st' r i =
                Some (if type data = JStr ''int'' then parseInt (dvalue data) else dvalue data))
         \<and> parseInt (JStr ''42'') = JNum 42
         \<and> JNum 42 \<noteq> JStr ''42''"
proof -
  have "coerced data = (if type data = JStr ''int'' then parseInt (dvalue data) else dvalue data)"
    by (auto simp: coerced_def strict_eq_def)
  with feedback_found [OF assms]
  have "\<exists>st'. feedback_handler v event st = (None, st')
           \<and> widget_value st' r i =
               Some (if type data = JStr ''int'' then parseInt (dvalue data) else dvalue data)"
    by auto
  moreover have "parseInt (JStr ''42'') = JNum 42" by code_simp
  ultimately show ?thesis by simp
qed

theorem feedback_int_value_is_parsed_witness:
  "detail (feedback (JNum 5) (JStr ''start_index'') (JStr ''int'') (JStr ''42''))
     = Some \<lparr>node_id = JNum 5, widget_name = JStr ''start_index'', type = JStr ''int'',
             dvalue = JStr ''42''\<rparr>
   \<and> truthy (JNum 5)
   \<and> resolve_node V2 state5 (JNum 5) = Inr (Some 0)
   \<and> find_widget V2 (heap state5 0) (JStr ''start_index'') = Inr (Some (0, index_widget))
   \<and> wf_widget index_widget
   \<and> (\<exists>st'. feedback_handler V2
               (feedback (JNum 5) (JStr ''start_index'') (JStr ''int'') (JStr ''42'')) state5
               = (None, st')
         \<and> widget_value st' 0 0 = Some (JNum 42))"
proof -
  let ?d = "\<lparr>node_id = JNum 5, widget_name = JStr ''start_index'', type = JStr ''int'',
             dvalue = JStr ''42''\<rparr>"
  have a: "detail (feedback (JNum 5) (JStr ''start_index'') (JStr ''int'') (JStr ''42'')) = Some ?d"
    by (simp add: feedback_def)
  have b: "truthy (node_id ?d)" by (simp add: truthy_def)
  have c: "resolve_node V2 state5 (node_id ?d) = Inr (Some 0)" by code_simp
  have d: "find_widget V2 (heap state5 0) (widget_name ?d) = Inr (Some (0, index_widget))"
    by (simp add: find_widget_def state5_def node5_def strict_eq_def index_widget_def)
  have e: "wf_widget index_widget"
    by (simp add: wf_widget_def index_widget_def closure_name_def)
  have f: "parseInt (JStr ''42'') = JNum 42" by code_simp
  show ?thesis
    using feedback_int_value_is_parsed [OF a b c d e] a b c d e
    by (simp add: f)
qed

text \<open>
  C10. When the type tag is \<^verbatim>\<open>"int"\<close> and the value does not parse as an integer
  (\<^verbatim>\<open>parseInt\<close> gives \<open>NaN\<close>, as for \<^verbatim>\<open>"abc"\<close>), the assignment is still made: the
  widget's value becomes \<open>NaN\<close>, and its callback, if it has one, is invoked exactly once,
  with \<open>NaN\<close>.
\<close>

theorem feedback_int_unparsable_gives_NaN:
  assumes "detail event = Some data"
    and "truthy (node_id data)"
    and "resolve_node v st (node_id data) = Inr (Some r)"
    and "find_widget v (heap st r) (widget_name data) = Inr (Some (i, w))"
    and "wf_widget w"
    and "type data = JStr ''int''"
    and "parseInt (dvalue data) = JNaN"
  shows "\<exists>st'. feedback_handler v event st = (None, st')
           \<and> widget_value st' r i = Some JNaN
           \<and> widget_calls st' = widget_calls st @
               (case callback w of None \<Rightarrow> [] | Some cb \<Rightarrow> [CallWidgetCallback r i JNaN])"
proof -
  have "coerced data = JNaN"
    using assms(6,7) by (simp add: coerced_def strict_eq_def)
  with feedback_found [OF assms(1-5)] show ?thesis by (simp cong: option.case_cong)
qed

theorem feedback_int_unparsable_gives_NaN_witness:
  "detail (feedback (JStr ''5'') (JStr ''start_index'') (JStr ''int'') (JStr ''abc''))
     = Some \<lparr>node_id = JStr ''5'', widget_name = JStr ''start_index'', type = JStr ''int'',
             dvalue = JStr ''abc''\<rparr>
   \<and> truthy (JStr ''5'')
   \<and> resolve_node V1 state5 (JStr ''5'') = Inr (Some 0)
   \<and> find_widget V1 (heap state5 0) (JStr ''start_index'') = Inr (Some (0, index_widget))
   \<and> wf_widget index_widget
   \<and> parseInt (JStr ''abc'') = JNaN
   \<and> (\<exists>st'. feedback_handler V1
               (feedback (JStr ''5'') (JStr ''start_index'') (JStr ''int'') (JStr ''abc'')) state5
               = (None, st')
         \<and> widget_value st' 0 0 = Some JNaN
         \<and> widget_calls st' = [CallWidgetCallback 0 0 JNaN])"
proof -
  let ?d = "\<lparr>node_id = JStr ''5'', widget_name = JStr ''start_index'', type = JStr ''int'',
             dvalue = JStr ''abc''\<rparr>"
  have a: "detail (feedback (JStr ''5'') (JStr ''start_index'') (JStr ''int'') (JStr ''abc'')) = Some ?d"
    by (simp add: feedback_def)
  have b: "truthy (node_id ?d)" by (simp add: truthy_def)
  have c: "resolve_node V1 state5 (node_id ?d) = Inr (Some 0)" by code_simp
  have d: "find_widget V1 (heap state5 0) (widget_name ?d) = Inr (Some (0, index_widget))"
    by (simp add: find_widget_def state5_def node5_def strict_eq_def index_widget_def)
  have e: "wf_widget index_widget"
    by (simp add: wf_widget_def index_widget_def closure_name_def)
  have t: "type ?d = JStr ''int''" by simp
  have f: "parseInt (dvalue ?d) = JNaN" by code_simp
  have g: "widget_calls state5 = []" by (simp add: widget_calls_def state5_def)
  have h: "callback index_widget = Some (HostCallback Returns)" by (simp add: index_widget_def)
  show ?thesis
    using feedback_int_unparsable_gives_NaN [OF a b c d e t f] a b c d e f
    by (simp add: g h)
qed



text \<open>
  C9, as amended. When the \<^verbatim>\<open>node_id\<close> of the payload is falsy (missing, \<^verbatim>\<open>null\<close>,
  \<^verbatim>\<open>false\<close>, the number 0, \<open>NaN\<close> or the empty string) the handler logs one error and
  returns: the state is the one before but for the two console entries, so no node is
  looked up and no widget is changed. The number 0 and the empty string are falsy.
\<close>

theorem feedback_falsy_node_id_rejected:
  assumes "detail event = Some data"
    and "\<not> truthy (node_id data)"
  shows "feedback_handler v event st =
           (None, st\<lparr>console := console st @
              [(Log, ''Received node feedback:''), (Error, ''Invalid data received:'')]\<rparr>)
         \<and> \<not> truthy (JNum 0) \<and> \<not> truthy (JStr [])"
  using assms
  by (simp add: feedback_handler_def feedback_try_def log_def truthy_def)

theorem feedback_falsy_node_id_rejected_witness:
  "detail (feedback (JNum 0) (JStr ''start_index'') (JStr ''int'') (JStr ''42''))
     = Some \<lparr>node_id = JNum 0, widget_name = JStr ''start_index'', type = JStr ''int'',
             dvalue = JStr ''42''\<rparr>
   \<and> \<not> truthy (JNum 0)
   \<and> feedback_handler V1
        (feedback (JNum 0) (JStr ''start_index'') (JStr ''int'') (JStr ''42'')) state_zero
      = (None, state_zero\<lparr>console := console state_zero @
              [(Log, ''Received node feedback:''), (Error, ''Invalid data received:'')]\<rparr>)"
proof -
  let ?d = "\<lparr>node_id = JNum 0, widget_name = JStr ''start_index'', type = JStr ''int'',
             dvalue = JStr ''42''\<rparr>"
  have a: "detail (feedback (JNum 0) (JStr ''start_index'') (JStr ''int'') (JStr ''42'')) = Some ?d"
    by (simp add: feedback_def)
  have b: "\<not> truthy (node_id ?d)" by (simp add: truthy_def)
  show ?thesis
    using feedback_falsy_node_id_rejected [OF a b, of V1 state_zero] a b
    by simp
qed

text \<open>
  C9 as stated adds that a node whose identifier is 0 can never receive feedback. The
  string \<^verbatim>\<open>"0"\<close> is truthy, passes the check and is the key of that node in the host's
  \<^verbatim>\<open>_nodes_by_id\<close>: the widget of the node with identifier 0 goes from 7 to 42.
\<close>

theorem node_zero_receives_feedback:
  "ident (heap state_zero 0) = JNum 0
   \<and> widget_value state_zero 0 0 = Some (JNum 7)
   \<and> widget_value
        (snd (feedback_handler V1
           (feedback (JStr ''0'') (JStr ''start_index'') (JStr ''int'') (JStr ''42'')) state_zero))
        0 0 = Some (JNum 42)
   \<and> widget_value
        (snd (feedback_handler V2
           (feedback (JStr ''0'') (JStr ''start_index'') (JStr ''int'') (JStr ''42'')) state_zero))
        0 0 = Some (JNum 42)"
  by code_simp

section \<open>Node removal\<close>

lemma nodeIdMap_delete_absent:
  "nodeIdMap_get m k = None \<Longrightarrow> nodeIdMap_delete k m = m"
  by (induction m) (auto simp: nodeIdMap_get_def nodeIdMap_delete_def split: if_splits)

lemma call_prev_frame:
  "nodeIdMap (snd (call_prev c prev st)) = nodeIdMap st"
  "heap (snd (call_prev c prev st)) = heap st"
  "timers (snd (call_prev c prev st)) = timers st"
  "now (snd (call_prev c prev st)) = now st"
  "calls (snd (call_prev c prev st)) = calls st @ (case prev of None \<Rightarrow> [] | Some out \<Rightarrow> [c])"
  by (simp_all add: call_prev_def call_host_def split: option.splits outcome.splits)

text \<open>
  C6. When a node of a handled type is removed and its identifier is not a key of the
  cache, the cache is unchanged by the removal, and a handler that was installed on the
  prototype before is invoked once, on the same node and with the same arguments.
\<close>

theorem removal_of_unregistered_node:
  assumes "handled nm"
    and "nodeIdMap_get (nodeIdMap st) (ident (heap st r)) = None"
  shows "\<exists>e st'. nodeType_onRemoved v prev nm r args st = (e, st')
           \<and> nodeIdMap st' = nodeIdMap st
           \<and> calls st' = calls st @
               (case prev of None \<Rightarrow> [] | Some out \<Rightarrow> [CallPrevOnRemoved r args])"
proof -
  have del: "nodeIdMap_delete (ident (heap st r)) (nodeIdMap st) = nodeIdMap st"
    using assms(2) by (rule nodeIdMap_delete_absent)
  obtain e st' where res: "nodeType_onRemoved v prev nm r args st = (e, st')"
    by (cases "nodeType_onRemoved v prev nm r args st")
  have st': "st' = snd (nodeType_onRemoved v prev nm r args st)"
    using res by simp
  have "nodeIdMap st' = nodeIdMap st"
    unfolding st' using assms(1) del
    by (cases v) (simp_all add: nodeType_onRemoved_def onRemoved_def Let_def call_prev_frame)
  moreover have "calls st' = calls st @
      (case prev of None \<Rightarrow> [] | Some out \<Rightarrow> [CallPrevOnRemoved r args])"
    unfolding st' using assms(1)
    by (cases v) (simp_all add: nodeType_onRemoved_def onRemoved_def Let_def call_prev_frame)
  ultimately show ?thesis using res by simp
qed

theorem removal_of_unregistered_node_witness:
  "handled ''TextBatch''
   \<and> nodeIdMap_get (nodeIdMap state5) (ident (heap state5 0)) = None
   \<and> (\<exists>e st'. nodeType_onRemoved V2 (Some Returns) ''TextBatch'' 0 [JNum 3] state5 = (e, st')
           \<and> nodeIdMap st' = nodeIdMap state5
           \<and> calls st' = [CallPrevOnRemoved 0 [JNum 3]])"
proof -
  have a: "handled ''TextBatch''" by (simp add: handled_def)
  have b: "nodeIdMap_get (nodeIdMap state5) (ident (heap state5 0)) = None"
    by (simp add: nodeIdMap_get_def state5_def)
  have c: "calls state5 = []" by (simp add: state5_def)
  show ?thesis
    using removal_of_unregistered_node [OF a b, where v = V2 and prev = "Some Returns" and args = "[JNum 3]"] a b
    by (simp add: c)
qed

section \<open>Errors\<close>




section \<open>Node creation\<close>

lemma addWidget_frame:
  "nodeIdMap (snd (addWidget v r w st)) = nodeIdMap st"
  "timers (snd (addWidget v r w st)) = timers st"
  "calls (snd (addWidget v r w st)) = calls st"
  "now (snd (addWidget v r w st)) = now st"
  by (simp_all add: addWidget_def Let_def)

lemma addWidget_widgets:
  "widgets (heap (snd (addWidget v r w st)) r) =
     (if has_addWidget (heap st r)
      then Some ((case widgets (heap st r) of None \<Rightarrow> [] | Some ws \<Rightarrow> ws) @ [w])
      else widgets (heap st r))"
  by (simp add: addWidget_def Let_def)

lemma deferred_init_effect:
  "timers (snd (deferred_init v r nm s)) = timers s"
  "nodeIdMap (snd (deferred_init v r nm s)) =
     (if valid_id (ident (heap s r)) then nodeIdMap_set (ident (heap s r)) r (nodeIdMap s)
      else nodeIdMap s)"
  "widgets (heap (snd (deferred_init v r nm s)) r) =
     (if valid_id (ident (heap s r)) \<and> has_addWidget (heap s r)
      then Some ((case widgets (heap s r) of None \<Rightarrow> [] | Some ws \<Rightarrow> ws) @ [status_widget r])
      else widgets (heap s r))"
  "valid_id (ident (heap s r)) \<or> heap (snd (deferred_init v r nm s)) = heap s"
  by (cases v; simp add: deferred_init_def register_node_def valid_id_def Let_def
      addWidget_frame addWidget_widgets)+

lemma onNodeCreated_invalid:
  assumes "\<not> valid_id (ident (heap st r))"
  shows "nodeIdMap (snd (onNodeCreated v prev nm r args st)) = nodeIdMap st"
    and "heap (snd (onNodeCreated v prev nm r args st)) = heap st"
    and "timers (snd (onNodeCreated v prev nm r args st)) =
          timers st @ (if fst (onNodeCreated v prev nm r args st) = None
                       then [(now st, DeferredInit r nm)] else [])"
proof -
  have inv: "\<not> truthy (ident (heap st r)) \<or> strict_eq (ident (heap st r)) (JNum (- 1))"
    using assms by (simp add: valid_id_def)
  show "nodeIdMap (snd (onNodeCreated v prev nm r args st)) = nodeIdMap st"
    using inv
    by (cases prev; cases "the prev")
       (auto simp: onNodeCreated_def then_do_def call_prev_def call_host_def)
  show "heap (snd (onNodeCreated v prev nm r args st)) = heap st"
    using inv
    by (cases prev; cases "the prev")
       (auto simp: onNodeCreated_def then_do_def call_prev_def call_host_def)
  show "timers (snd (onNodeCreated v prev nm r args st)) =
          timers st @ (if fst (onNodeCreated v prev nm r args st) = None
                       then [(now st, DeferredInit r nm)] else [])"
    using inv
    by (cases prev; cases "the prev")
       (auto simp: onNodeCreated_def then_do_def call_prev_def call_host_def)
qed

text \<open>
  C5. A node of a handled type that is created while its identifier is not valid (falsy,
  or \<open>-1\<close>) is neither registered in the cache nor given a widget by \<^verbatim>\<open>onNodeCreated\<close>;
  the only thing the override leaves behind is one timer of delay 0 for the deferred
  check (none when the previous handler threw). The deferred check, in whatever state
  \<open>s\<close> it runs, registers the node and attaches the status widget if and only if the
  identifier is valid by then; otherwise it leaves cache and store as they are. In both
  cases it schedules no timer, so there is no further retry.
\<close>

theorem node_created_with_invalid_id:
  assumes "handled nm"
    and "\<not> valid_id (ident (heap st r))"
  shows "\<exists>e st1 e' s'.
           nodeType_onNodeCreated v prev nm r args st = (e, st1)
           \<and> nodeIdMap st1 = nodeIdMap st
           \<and> heap st1 = heap st
           \<and> timers st1 = timers st @ (if e = None then [(now st, DeferredInit r nm)] else [])
           \<and> run_task v (DeferredInit r nm) s = (e', s')
           \<and> timers s' = timers s
           \<and> nodeIdMap s' =
               (if valid_id (ident (heap s r))
                then nodeIdMap_set (ident (heap s r)) r (nodeIdMap s) else nodeIdMap s)
           \<and> widgets (heap s' r) =
               (if valid_id (ident (heap s r)) \<and> has_addWidget (heap s r)
                then Some ((case widgets (heap s r) of None \<Rightarrow> [] | Some ws \<Rightarrow> ws)
                           @ [status_widget r])
                else widgets (heap s r))
           \<and> (valid_id (ident (heap s r)) \<or> heap s' = heap s)"
proof -
  obtain e st1 where c: "nodeType_onNodeCreated v prev nm r args st = (e, st1)"
    by (cases "nodeType_onNodeCreated v prev nm r args st")
  obtain e' s' where d: "run_task v (DeferredInit r nm) s = (e', s')"
    by (cases "run_task v (DeferredInit r nm) s")
  have c': "onNodeCreated v prev nm r args st = (e, st1)"
    using c assms(1) by (simp add: nodeType_onNodeCreated_def)
  have d': "deferred_init v r nm s = (e', s')"
    using d by (simp add: run_task_def)
  have "nodeIdMap st1 = nodeIdMap st" "heap st1 = heap st"
    "timers st1 = timers st @ (if e = None then [(now st, DeferredInit r nm)] else [])"
    using onNodeCreated_invalid [OF assms(2), where v = v and prev = prev and nm = nm and args = args] c' by simp_all
  moreover have "timers s' = timers s"
    "nodeIdMap s' =
       (if valid_id (ident (heap s r))
        then nodeIdMap_set (ident (heap s r)) r (nodeIdMap s) else nodeIdMap s)"
    "widgets (heap s' r) =
       (if valid_id (ident (heap s r)) \<and> has_addWidget (heap s r)
        then Some ((case widgets (heap s r) of None \<Rightarrow> [] | Some ws \<Rightarrow> ws)
                   @ [status_widget r])
        else widgets (heap s r))"
    "valid_id (ident (heap s r)) \<or> heap s' = heap s"
    using deferred_init_effect [where v = v and r = r and nm = nm and s = s] d' by simp_all
  ultimately show ?thesis using c d by blast
qed

theorem node_created_with_invalid_id_witness:
  "handled ''TextBatch''
   \<and> \<not> valid_id (ident (heap state5 1))
   \<and> (\<exists>e st1 e' s'.
           nodeType_onNodeCreated V1 None ''TextBatch'' 1 [] state5 = (e, st1)
           \<and> nodeIdMap st1 = nodeIdMap state5
           \<and> heap st1 = heap state5
           \<and> timers st1 = timers state5 @ (if e = None then [(now state5, DeferredInit 1 ''TextBatch'')] else [])
           \<and> run_task V1 (DeferredInit 1 ''TextBatch'') state5 = (e', s')
           \<and> timers s' = timers state5
           \<and> nodeIdMap s' = nodeIdMap state5
           \<and> widgets (heap s' 1) = widgets (heap state5 1)
           \<and> heap s' = heap state5)"
proof -
  have a: "handled ''TextBatch''" by (simp add: handled_def)
  have b: "\<not> valid_id (ident (heap state5 1))"
    by (simp add: valid_id_def state5_def blank_node_def strict_eq_def truthy_def)
  show ?thesis
    using node_created_with_invalid_id [OF a b, where v = V1 and prev = None and args = "[]"
        and s = state5] a b
    by (simp add: b)
qed

section \<open>Queue events\<close>



lemma queue_calls_log [simp]: "queue_calls (log l m st) = queue_calls st"
  by (simp add: queue_calls_def)









section \<open>The buttons of the queue processor nodes\<close>










section \<open>Supporting facts\<close>

text \<open>The falsy values of the model.\<close>

lemma falsy_values:
  "\<not> truthy x \<longleftrightarrow> x \<in> {JUndefined, JNull, JBool False, JNum 0, JNaN, JStr []}"
  by (cases x) (auto simp: truthy_def)

text \<open>
  Every widget that \<^verbatim>\<open>js/textbatch.js\<close> creates satisfies \<open>wf_widget\<close>, and an assignment
  to a widget's value keeps it.
\<close>

lemma created_widgets_wf:
  "wf_widget (status_widget r)"
  "wf_widget (button reset_name (ResetCallback r))"
  "wf_widget (button to_start_name (ToStartCallback r))"
  "wf_widget (button to_end_name (ToEndCallback r k))"
  "wf_widget w \<Longrightarrow> wf_widget (w\<lparr>wvalue := x\<rparr>)"
  by (simp_all add: wf_widget_def status_widget_def button_def closure_name_def
      cong: option.case_cong)

text \<open>
  The class prototypes have no enumerable property, so that the registration of
  \<^verbatim>\<open>rgthree.TextBatch\<close> leaves the prototype of every node type as it found it: no
  method of the classes reaches the nodes that the host constructs.
\<close>

lemma Object_assign_class_prototype: "Object_assign proto (class_prototype c) = proto"
  by (simp add: Object_assign_def class_prototype_def)

lemma beforeRegisterNodeDef_rgthree_keeps_prototype:
  "beforeRegisterNodeDef_rgthree v nm proto =
     (if v = V2 \<and> nm = ''ImageQueueProcessor'' then Inl ReferenceError else Inr proto)"
  by (cases v) (simp_all add: beforeRegisterNodeDef_rgthree_def Object_assign_class_prototype)

text \<open>The class of the second variant attaches the reset button only.\<close>

lemma addCustomWidgets_V2_widgets:
  "widgets (heap (snd (addCustomWidgets_V2 r st)) r) =
     (if has_addWidget (heap st r)
      then Some ((case widgets (heap st r) of None \<Rightarrow> [] | Some ws \<Rightarrow> ws)
                 @ [button reset_name (ResetCallback r)])
      else widgets (heap st r))"
  by (simp add: addCustomWidgets_V2_def addWidget_widgets)

text \<open>After the constructor of a class the node has its \<^verbatim>\<open>properties\<close>.\<close>

lemma constructor_properties:
  "properties (heap (snd (constructor c r st)) r)"
  by (simp add: constructor_def addCustomWidgets_def then_do_def addWidget_def Let_def)

end
